theory Spec2Isabelle
  imports Main
begin

section \<open>CodeSphere session page: synchronisation and peer negotiation\<close>

text \<open>
  A shallow embedding of the event handlers of \<^verbatim>\<open>SessionPage.jsx\<close>. The component's
  refs and React state are the fields of one record; every handler is a function on
  that record. Calls on the external collaborators (the editor's text, the relay
  socket, the peer connection, the capture devices, the toasts, the timers) and the
  writes to the suppression flag are appended to the field \<open>trace\<close> in the order in
  which the source performs them, so that claims about order are claims about a list.

  An \<^verbatim>\<open>async\<close> handler is a computation that returns either a value or the exception
  it threw, together with the state reached so far. A handler runs to its end before the
  next event is taken: the events that could be served at an \<^verbatim>\<open>await\<close> are not
  interleaved.
\<close>

subsection \<open>Data\<close>

datatype sdp = Sdp string

datatype candidate = Candidate string

datatype track_kind = VideoKind | AudioKind

text \<open>
  Tracks and streams are objects that several references share, so they live in two
  stores in the state: a track is named by its index in \<open>tracks\<close>, a stream by its
  index in \<open>streams\<close>, and a stream is the list of the names of its tracks.
\<close>

record track =
  t_kind :: track_kind
  t_stopped :: bool

type_synonym media_stream = "nat list"

record constraints =
  c_video :: bool
  c_audio :: bool

record participant =
  p_userId :: string
  p_username :: string

datatype readyState = CONNECTING | OPEN | CLOSING | CLOSED

text \<open>The peer connection object, as far as the handlers drive it.\<close>

record pc =
  remoteDescription :: "sdp option"
  localDescription :: "sdp option"
  remoteCandidates :: "candidate list"
  senders :: "nat list"
  pc_closed :: bool

datatype exn = DOMException string | TypeError

text \<open>
  The messages received from the relay, one constructor for each \<^verbatim>\<open>case\<close> of the
  \<^verbatim>\<open>switch\<close> on \<^verbatim>\<open>data.type\<close>, carrying the fields that case reads. A field that is
  absent from the JSON object (\<^verbatim>\<open>undefined\<close>) is \<open>None\<close>.
\<close>

datatype msg =
    M_code_change "string option" "string option"
  | M_language_change "string option" "string option"
  | M_participants_update "participant list option"
  | M_session_state "string option" "string option" "participant list option"
  | M_webrtc_offer "sdp option"
  | M_webrtc_answer "sdp option"
  | M_webrtc_ice "candidate option"
  | M_user_joined "string option"
  | M_user_left "string option"
  | M_other string

text \<open>The messages handed to the socket, before \<^verbatim>\<open>JSON.stringify\<close>: payload, userId, sessionId.\<close>

datatype out_msg =
    Join string string string
  | Code_change "string option" string string
  | Language_change string string string
  | Webrtc_offer sdp string string
  | Webrtc_answer sdp string string
  | Webrtc_ice candidate string string

datatype effect =
    SetSuppression bool
  | SetCode "string option"
  | SetTimeout nat
  | ToastSuccess string
  | ToastInfo string
  | ToastError string
  | ConsoleError exn
  | Uncaught exn
  | NewWebSocket
  | WsSend out_msg
  | GetUserMedia constraints
  | NewRTCPeerConnection
  | AddTrack nat
  | CreateOffer
  | CreateAnswer
  | SetLocalDescription sdp
  | SetRemoteDescription "sdp option"
  | AddIceCandidate candidate
  | TrackStop nat
  | PcClose
  | WsCloseCall
  | ClipboardWrite
  | Navigate string

record state =
  userId :: string
  username :: string
  sessionId :: string
  editorRef :: "nat option"
  wsRef :: "readyState option"
  localVideoRef :: "nat option option"
  remoteVideoRef :: "nat option option"
  peerConnectionRef :: "pc option"
  localStreamRef :: "nat option"
  tracks :: "track list"
  streams :: "media_stream list"
  isRemoteChangeRef :: bool
  code :: "string option"
  language :: "string option"
  participants :: "participant list"
  isVideoOn :: bool
  isAudioOn :: bool
  isConnected :: bool
  timers :: "nat list"
  outbox :: "out_msg list"
  trace :: "effect list"

text \<open>
  A video element reference is \<open>None\<close> until the element is attached; then it holds
  the element's \<^verbatim>\<open>srcObject\<close>: \<open>None\<close> for \<^verbatim>\<open>null\<close>, or the name of a stream (a
  stream of the store for the local video, a stream of the peer for the remote video).

  The browser, as a parameter: what each asynchronous call of the media and
  peer-connection interfaces answers. \<open>None\<close> in an \<open>exn option\<close> is a promise that
  resolves. A granted \<^verbatim>\<open>getUserMedia\<close> answers the kinds of the tracks of the new stream.
\<close>

record platform =
  getUserMedia_result :: "constraints \<Rightarrow> exn + track_kind list"
  createOffer_result :: "pc \<Rightarrow> exn + sdp"
  createAnswer_result :: "pc \<Rightarrow> exn + sdp"
  setLocalDescription_result :: "pc \<Rightarrow> sdp \<Rightarrow> exn option"
  setRemoteDescription_result :: "pc \<Rightarrow> sdp option \<Rightarrow> exn option"
  addIceCandidate_result :: "pc \<Rightarrow> candidate \<Rightarrow> exn option"

subsection \<open>Computations that may throw\<close>

type_synonym 'a comp = "state \<Rightarrow> (exn + 'a) \<times> state"

definition ret :: "'a \<Rightarrow> 'a comp" where
  "ret x s = (Inr x, s)"

definition lift :: "(state \<Rightarrow> state) \<Rightarrow> unit comp" where
  "lift f s = (Inr (), f s)"

definition andthen :: "'a comp \<Rightarrow> ('a \<Rightarrow> 'b comp) \<Rightarrow> 'b comp" where
  "andthen m f s = (case m s of (Inl e, s') \<Rightarrow> (Inl e, s') | (Inr x, s') \<Rightarrow> f x s')"

definition emit :: "effect \<Rightarrow> state \<Rightarrow> state" where
  "emit e s = s\<lparr>trace := trace s @ [e]\<rparr>"

text \<open>An event handler whose exception nobody catches: the state reached stays.\<close>

definition run_handler :: "unit comp \<Rightarrow> state \<Rightarrow> state" where
  "run_handler m s = (case m s of (Inl e, s') \<Rightarrow> emit (Uncaught e) s' | (Inr _, s') \<Rightarrow> s')"

definition try_catch :: "unit comp \<Rightarrow> (exn \<Rightarrow> state \<Rightarrow> state) \<Rightarrow> state \<Rightarrow> state" where
  "try_catch m h s = (case m s of (Inl e, s') \<Rightarrow> h e s' | (Inr _, s') \<Rightarrow> s')"

subsection \<open>JavaScript truthiness of the fields the handlers test\<close>

fun truthy_str :: "string option \<Rightarrow> bool" where
  "truthy_str None = False"
| "truthy_str (Some v) = (v \<noteq> [])"

definition or_else :: "string option \<Rightarrow> string \<Rightarrow> string" where
  "or_else v d = (case v of None \<Rightarrow> d | Some x \<Rightarrow> (if x = [] then d else x))"

subsection \<open>The relay socket\<close>

text \<open>
  \<^verbatim>\<open>WebSocket.send\<close>: throws \<^verbatim>\<open>InvalidStateError\<close> while the socket is connecting,
  transmits when it is open, and discards the data when it is closing or closed.
\<close>

definition socket_send :: "readyState \<Rightarrow> out_msg \<Rightarrow> unit comp" where
  "socket_send rs m s =
     (case rs of
        CONNECTING \<Rightarrow> (Inl (DOMException ''InvalidStateError''), emit (WsSend m) s)
      | OPEN \<Rightarrow> (Inr (), emit (WsSend m) (s\<lparr>outbox := outbox s @ [m]\<rparr>))
      | CLOSING \<Rightarrow> (Inr (), emit (WsSend m) s)
      | CLOSED \<Rightarrow> (Inr (), emit (WsSend m) s))"

text \<open>\<^verbatim>\<open>if (wsRef.current?.readyState === WebSocket.OPEN) wsRef.current.send(...)\<close>\<close>

definition send_if_open :: "out_msg \<Rightarrow> unit comp" where
  "send_if_open m s = (if wsRef s = Some OPEN then socket_send OPEN m s else ret () s)"

text \<open>\<^verbatim>\<open>wsRef.current?.send(...)\<close>\<close>

definition send_opt :: "out_msg \<Rightarrow> unit comp" where
  "send_opt m s = (case wsRef s of None \<Rightarrow> ret () s | Some rs \<Rightarrow> socket_send rs m s)"

subsection \<open>Synchronisation\<close>

definition setCode :: "string option \<Rightarrow> state \<Rightarrow> state" where
  "setCode v s = emit (SetCode v) (s\<lparr>code := v\<rparr>)"

definition setSuppression :: "bool \<Rightarrow> state \<Rightarrow> state" where
  "setSuppression b s = emit (SetSuppression b) (s\<lparr>isRemoteChangeRef := b\<rparr>)"

definition setTimeout_clear :: "nat \<Rightarrow> state \<Rightarrow> state" where
  "setTimeout_clear ms s = emit (SetTimeout ms) (s\<lparr>timers := timers s @ [ms]\<rparr>)"


definition applyRemoteCode :: "string option \<Rightarrow> state \<Rightarrow> state" where
  "applyRemoteCode c s = setTimeout_clear 50 (setCode c (setSuppression True s))"

definition handleEditorChange :: "string option \<Rightarrow> state \<Rightarrow> state" where
  "handleEditorChange v s =
     (if isRemoteChangeRef s then s
      else run_handler
             (andthen (lift (setCode v))
                (\<lambda>_ s'. send_if_open (Code_change v (userId s') (sessionId s')) s')) s)"

definition handleLanguageChange :: "string \<Rightarrow> state \<Rightarrow> state" where
  "handleLanguageChange l s =
     run_handler
       (andthen (lift (\<lambda>s'. s'\<lparr>language := Some l\<rparr>))
          (\<lambda>_ s'. send_if_open (Language_change l (userId s') (sessionId s')) s')) s"

definition handleEditorMount :: "nat \<Rightarrow> state \<Rightarrow> state" where
  "handleEditorMount ed s = s\<lparr>editorRef := Some ed\<rparr>"

subsection \<open>Peer connection\<close>

definition new_pc :: pc where
  "new_pc = \<lparr>remoteDescription = None, localDescription = None, remoteCandidates = [],
            senders = [], pc_closed = False\<rparr>"

definition initWebRTC :: "state \<Rightarrow> state" where
  "initWebRTC s = emit NewRTCPeerConnection (s\<lparr>peerConnectionRef := Some new_pc\<rparr>)"

text \<open>The \<^verbatim>\<open>onicecandidate\<close> callback installed by \<^verbatim>\<open>initWebRTC\<close>.\<close>

definition onicecandidate :: "candidate option \<Rightarrow> state \<Rightarrow> state" where
  "onicecandidate c s =
     (case c of
        None \<Rightarrow> s
      | Some cand \<Rightarrow> run_handler (send_if_open (Webrtc_ice cand (userId s) (sessionId s))) s)"

text \<open>
  The calls on \<^verbatim>\<open>peerConnectionRef.current\<close>. On \<^verbatim>\<open>null\<close> the property access
  throws a \<^verbatim>\<open>TypeError\<close>.
\<close>

definition pc_setRemoteDescription :: "platform \<Rightarrow> sdp option \<Rightarrow> unit comp" where
  "pc_setRemoteDescription P d s =
     (case peerConnectionRef s of
        None \<Rightarrow> (Inl TypeError, s)
      | Some p \<Rightarrow>
          (case setRemoteDescription_result P p d of
             Some e \<Rightarrow> (Inl e, emit (SetRemoteDescription d) s)
           | None \<Rightarrow> (Inr (), emit (SetRemoteDescription d)
                        (s\<lparr>peerConnectionRef := Some (p\<lparr>remoteDescription := d\<rparr>)\<rparr>))))"

definition pc_setLocalDescription :: "platform \<Rightarrow> sdp \<Rightarrow> unit comp" where
  "pc_setLocalDescription P d s =
     (case peerConnectionRef s of
        None \<Rightarrow> (Inl TypeError, s)
      | Some p \<Rightarrow>
          (case setLocalDescription_result P p d of
             Some e \<Rightarrow> (Inl e, emit (SetLocalDescription d) s)
           | None \<Rightarrow> (Inr (), emit (SetLocalDescription d)
                        (s\<lparr>peerConnectionRef := Some (p\<lparr>localDescription := Some d\<rparr>)\<rparr>))))"

definition pc_createOffer :: "platform \<Rightarrow> sdp comp" where
  "pc_createOffer P s =
     (case peerConnectionRef s of
        None \<Rightarrow> (Inl TypeError, s)
      | Some p \<Rightarrow> (createOffer_result P p, emit CreateOffer s))"

definition pc_createAnswer :: "platform \<Rightarrow> sdp comp" where
  "pc_createAnswer P s =
     (case peerConnectionRef s of
        None \<Rightarrow> (Inl TypeError, s)
      | Some p \<Rightarrow> (createAnswer_result P p, emit CreateAnswer s))"

definition pc_addIceCandidate :: "platform \<Rightarrow> candidate \<Rightarrow> unit comp" where
  "pc_addIceCandidate P c s =
     (case peerConnectionRef s of
        None \<Rightarrow> (Inl TypeError, s)
      | Some p \<Rightarrow>
          (case addIceCandidate_result P p c of
             Some e \<Rightarrow> (Inl e, emit (AddIceCandidate c) s)
           | None \<Rightarrow> (Inr (), emit (AddIceCandidate c)
                        (s\<lparr>peerConnectionRef :=
                             Some (p\<lparr>remoteCandidates := remoteCandidates p @ [c]\<rparr>)\<rparr>))))"

text \<open>\<^verbatim>\<open>peerConnectionRef.current?.addTrack(track, stream)\<close>\<close>

definition pc_addTrack_opt :: "nat \<Rightarrow> state \<Rightarrow> state" where
  "pc_addTrack_opt t s =
     (case peerConnectionRef s of
        None \<Rightarrow> s
      | Some p \<Rightarrow> emit (AddTrack t)
                   (s\<lparr>peerConnectionRef := Some (p\<lparr>senders := senders p @ [t]\<rparr>)\<rparr>))"



definition handleOffer :: "platform \<Rightarrow> sdp option \<Rightarrow> unit comp" where
  "handleOffer P offer =
     andthen (lift (\<lambda>s. if peerConnectionRef s = None then initWebRTC s else s)) (\<lambda>_.
     andthen (pc_setRemoteDescription P offer) (\<lambda>_.
     andthen (pc_createAnswer P) (\<lambda>answer.
     andthen (pc_setLocalDescription P answer) (\<lambda>_ s.
     send_opt (Webrtc_answer answer (userId s) (sessionId s)) s))))"

definition handleAnswer :: "platform \<Rightarrow> sdp option \<Rightarrow> unit comp" where
  "handleAnswer P answer s =
     (if peerConnectionRef s \<noteq> None then pc_setRemoteDescription P answer s else ret () s)"

definition handleIceCandidate :: "platform \<Rightarrow> candidate option \<Rightarrow> unit comp" where
  "handleIceCandidate P c s =
     (case c of
        None \<Rightarrow> ret () s
      | Some cand \<Rightarrow>
          (if peerConnectionRef s \<noteq> None then pc_addIceCandidate P cand s else ret () s))"

subsection \<open>Inbound messages\<close>

fun handleWebSocketMessage :: "platform \<Rightarrow> msg \<Rightarrow> state \<Rightarrow> state" where
  "handleWebSocketMessage P (M_code_change c uid) s =
     (if uid \<noteq> Some (userId s) \<and> editorRef s \<noteq> None then applyRemoteCode c s else s)"
| "handleWebSocketMessage P (M_language_change l uid) s =
     (if uid \<noteq> Some (userId s) then s\<lparr>language := l\<rparr> else s)"
| "handleWebSocketMessage P (M_participants_update ps) s =
     s\<lparr>participants := (case ps of None \<Rightarrow> [] | Some l \<Rightarrow> l)\<rparr>"
| "handleWebSocketMessage P (M_session_state c l ps) s =
     (let s1 = (if truthy_str c then applyRemoteCode c s else s);
          s2 = (if truthy_str l then s1\<lparr>language := l\<rparr> else s1)
      in case ps of None \<Rightarrow> s2 | Some r \<Rightarrow> s2\<lparr>participants := r\<rparr>)"
| "handleWebSocketMessage P (M_webrtc_offer offer) s = run_handler (handleOffer P offer) s"
| "handleWebSocketMessage P (M_webrtc_answer answer) s = run_handler (handleAnswer P answer) s"
| "handleWebSocketMessage P (M_webrtc_ice c) s = run_handler (handleIceCandidate P c) s"
| "handleWebSocketMessage P (M_user_joined u) s =
     emit (ToastInfo (or_else u ''Someone'' @ '' joined'')) s"
| "handleWebSocketMessage P (M_user_left u) s =
     emit (ToastInfo (or_else u ''Someone'' @ '' left'')) s"
| "handleWebSocketMessage P (M_other ty) s = s"

subsection \<open>Media toggles\<close>

text \<open>
  A granted \<^verbatim>\<open>getUserMedia\<close> makes new track objects and a new stream object of them,
  and resolves to the stream.
\<close>

definition mediaDevices_getUserMedia :: "platform \<Rightarrow> constraints \<Rightarrow> nat comp" where
  "mediaDevices_getUserMedia P c s =
     (case getUserMedia_result P c of
        Inl e \<Rightarrow> (Inl e, emit (GetUserMedia c) s)
      | Inr kinds \<Rightarrow>
          (Inr (length (streams s)),
           emit (GetUserMedia c)
             (s\<lparr>tracks := tracks s @ map (\<lambda>k. \<lparr>t_kind = k, t_stopped = False\<rparr>) kinds,
                streams := streams s @
                  [map (\<lambda>i. length (tracks s) + i) [0..<length kinds]]\<rparr>)))"

text \<open>
  \<^verbatim>\<open>stream.getTracks()\<close>, \<^verbatim>\<open>getVideoTracks()\<close> and \<^verbatim>\<open>getAudioTracks()\<close>. A reference
  always names an object of the store; a name outside the store has no tracks.
\<close>

definition getTracks :: "nat \<Rightarrow> state \<Rightarrow> nat list" where
  "getTracks sid s =
     (if sid < length (streams s)
      then filter (\<lambda>i. i < length (tracks s)) (streams s ! sid) else [])"

definition getTracksOfKind :: "track_kind \<Rightarrow> nat \<Rightarrow> state \<Rightarrow> nat list" where
  "getTracksOfKind k sid s = filter (\<lambda>i. t_kind (tracks s ! i) = k) (getTracks sid s)"

text \<open>\<^verbatim>\<open>track.stop()\<close>\<close>

definition track_stop :: "nat \<Rightarrow> state \<Rightarrow> state" where
  "track_stop i s =
     emit (TrackStop i) (s\<lparr>tracks := (tracks s)[i := (tracks s ! i)\<lparr>t_stopped := True\<rparr>]\<rparr>)"

text \<open>\<^verbatim>\<open>stream.addTrack(track)\<close>, which does nothing when the stream already has the track.\<close>

definition stream_addTrack :: "nat \<Rightarrow> nat \<Rightarrow> state \<Rightarrow> state" where
  "stream_addTrack sid i s =
     (if sid < length (streams s) \<and> i \<notin> set (streams s ! sid)
      then s\<lparr>streams := (streams s)[sid := streams s ! sid @ [i]]\<rparr> else s)"

text \<open>\<^verbatim>\<open>localStreamRef.current?.getVideoTracks().forEach(track => track.stop())\<close>, and the same for audio.\<close>

definition stop_tracks :: "track_kind \<Rightarrow> state \<Rightarrow> state" where
  "stop_tracks k s =
     (case localStreamRef s of
        None \<Rightarrow> s
      | Some sid \<Rightarrow> foldl (\<lambda>s1 i. track_stop i s1) s (getTracksOfKind k sid s))"

text \<open>\<^verbatim>\<open>if (localVideoRef.current) localVideoRef.current.srcObject = ...\<close>\<close>

definition set_localVideo :: "nat option \<Rightarrow> state \<Rightarrow> state" where
  "set_localVideo src s =
     (case localVideoRef s of None \<Rightarrow> s | Some _ \<Rightarrow> s\<lparr>localVideoRef := Some src\<rparr>)"

definition toggleVideo :: "platform \<Rightarrow> state \<Rightarrow> state" where
  "toggleVideo P s =
     try_catch
       (if isVideoOn s then
          lift (\<lambda>s1. (set_localVideo None (stop_tracks VideoKind s1))\<lparr>isVideoOn := False\<rparr>)
        else
          andthen (mediaDevices_getUserMedia P \<lparr>c_video = True, c_audio = isAudioOn s\<rparr>) (\<lambda>stream.
          andthen (lift (\<lambda>s1. (set_localVideo (Some stream) (s1\<lparr>localStreamRef := Some stream\<rparr>))
                                 \<lparr>isVideoOn := True\<rparr>)) (\<lambda>_.
          andthen (lift (\<lambda>s1. if peerConnectionRef s1 = None then initWebRTC s1 else s1)) (\<lambda>_.
          andthen (lift (\<lambda>s1. foldl (\<lambda>s2 t. pc_addTrack_opt t s2) s1 (getTracks stream s1))) (\<lambda>_.
          andthen (pc_createOffer P) (\<lambda>offer.
          andthen (pc_setLocalDescription P offer) (\<lambda>_ s1.
          send_opt (Webrtc_offer offer (userId s1) (sessionId s1)) s1)))))))
       (\<lambda>err s1. emit (ConsoleError err) (emit (ToastError ''Failed to access camera'') s1))
       s"

definition toggleAudio :: "platform \<Rightarrow> state \<Rightarrow> state" where
  "toggleAudio P s =
     try_catch
       (if isAudioOn s then
          lift (\<lambda>s1. (stop_tracks AudioKind s1)\<lparr>isAudioOn := False\<rparr>)
        else
          andthen
            (\<lambda>s1. if localStreamRef s1 = None then
                    andthen (mediaDevices_getUserMedia P \<lparr>c_video = False, c_audio = True\<rparr>)
                      (\<lambda>stream. lift (\<lambda>s2. s2\<lparr>localStreamRef := Some stream\<rparr>)) s1
                  else
                    andthen (mediaDevices_getUserMedia P \<lparr>c_video = False, c_audio = True\<rparr>)
                      (\<lambda>audioStream s2.
                         case localStreamRef s2 of
                           None \<Rightarrow> (Inl TypeError, s2)
                         | Some sid \<Rightarrow>
                             (Inr (), foldl (\<lambda>s3 i. stream_addTrack sid i s3) s2
                                        (getTracksOfKind AudioKind audioStream s2))) s1)
            (\<lambda>_. lift (\<lambda>s1. s1\<lparr>isAudioOn := True\<rparr>)))
       (\<lambda>err s1. emit (ConsoleError err) (emit (ToastError ''Failed to access microphone'') s1))
       s"




subsection \<open>The component's life\<close>

text \<open>
  The first render: the \<^verbatim>\<open>useRef\<close> and \<^verbatim>\<open>useState\<close> initial values. In
  the template literal \<^verbatim>\<open>DEFAULT_CODE\<close> the rocket emoji is its four bytes of UTF-8
  and the line ends are \<open>CHR 10\<close>.
\<close>

definition DEFAULT_CODE :: string where
  "DEFAULT_CODE =
     ''// Welcome to CodeSphere! '' @ [CHR 0xF0, CHR 0x9F, CHR 0x9A, CHR 0x80, CHR 10] @
     ''// Start coding collaboratively'' @ [CHR 10, CHR 10] @
     ''function greet(name) {'' @ [CHR 10] @
     ''  return `Hello, ${name}! Welcome to the session.`;'' @ [CHR 10] @
     ''}'' @ [CHR 10, CHR 10] @
     ''console.log(greet('' @ [CHR 39] @ ''Developer'' @ [CHR 39] @ ''));'' @ [CHR 10]"

definition initial :: "string \<Rightarrow> string \<Rightarrow> string \<Rightarrow> state" where
  "initial uid uname sid =
     \<lparr>userId = uid, username = uname, sessionId = sid, editorRef = None, wsRef = None,
      localVideoRef = None, remoteVideoRef = None, peerConnectionRef = None,
      localStreamRef = None, tracks = [], streams = [], isRemoteChangeRef = False, code = Some DEFAULT_CODE, language = Some ''javascript'',
      participants = [], isVideoOn = False, isAudioOn = False, isConnected = False,
      timers = [], outbox = [], trace = []\<rparr>"

text \<open>
  The first commit attaches the two video elements, which are rendered whether the
  panel is open or not; the editor mounts later, through \<^verbatim>\<open>handleEditorMount\<close>.
\<close>

definition first_commit :: "state \<Rightarrow> state" where
  "first_commit s = s\<lparr>localVideoRef := Some None, remoteVideoRef := Some None\<rparr>"

text \<open>
  The effect that opens the socket, the socket's \<^verbatim>\<open>onopen\<close>, \<^verbatim>\<open>onclose\<close> and
  \<^verbatim>\<open>onerror\<close>, and the effect's cleanup.
\<close>

definition connect :: "state \<Rightarrow> state" where
  "connect s = emit NewWebSocket (s\<lparr>wsRef := Some CONNECTING\<rparr>)"

definition ws_onopen :: "state \<Rightarrow> state" where
  "ws_onopen s =
     run_handler (socket_send OPEN (Join (userId s) (username s) (sessionId s)))
       (emit (ToastSuccess ''Connected to session'') (s\<lparr>wsRef := Some OPEN, isConnected := True\<rparr>))"

definition ws_onclose :: "state \<Rightarrow> state" where
  "ws_onclose s =
     emit (ToastError ''Disconnected from session'') (s\<lparr>wsRef := Some CLOSED, isConnected := False\<rparr>)"



subsection \<open>The events of the component\<close>






subsection \<open>Browsers for the concrete runs\<close>

text \<open>A browser on which every call resolves.\<close>

definition camera_tracks :: "constraints \<Rightarrow> track_kind list" where
  "camera_tracks c =
     (if c_video c then [VideoKind] else []) @ (if c_audio c then [AudioKind] else [])"

definition browser_ok :: platform where
  "browser_ok =
     \<lparr>getUserMedia_result = (\<lambda>c. Inr (camera_tracks c)),
      createOffer_result = (\<lambda>p. Inr (Sdp ''local-offer'')),
      createAnswer_result = (\<lambda>p. Inr (Sdp ''local-answer'')),
      setLocalDescription_result = (\<lambda>p d. None),
      setRemoteDescription_result = (\<lambda>p d. None),
      addIceCandidate_result = (\<lambda>p c. None)\<rparr>"

text \<open>A browser that refuses the capture devices.\<close>

definition browser_denied :: platform where
  "browser_denied = browser_ok\<lparr>getUserMedia_result := (\<lambda>c. Inl (DOMException ''NotAllowedError''))\<rparr>"

subsection \<open>Concrete runs\<close>

text \<open>
  The second client of the spec's scenario: userId \<open>u2\<close> in session \<open>abc123\<close>, first
  while its socket is still connecting, then once the socket has opened, then once the
  editor has mounted.
\<close>

definition s_connecting :: state where
  "s_connecting = connect (first_commit (initial ''u2'' ''User 2'' ''abc123''))"

definition s_open :: state where
  "s_open = ws_onopen s_connecting"


text \<open>An ICE candidate arrives before any peer connection exists; then the peer's offer arrives.\<close>

definition s_early_ice :: state where
  "s_early_ice = handleWebSocketMessage browser_ok (M_webrtc_ice (Some (Candidate ''c1''))) s_open"

definition s_early_ice_then_offer :: state where
  "s_early_ice_then_offer =
     handleWebSocketMessage browser_ok (M_webrtc_offer (Some (Sdp ''remote-offer''))) s_early_ice"

text \<open>A browser that rejects a session description that is absent or empty.\<close>

definition browser_strict :: platform where
  "browser_strict =
     browser_ok\<lparr>setRemoteDescription_result :=
       (\<lambda>p d. case d of
                 None \<Rightarrow> Some TypeError
               | Some (Sdp t) \<Rightarrow>
                   (if t = [] then Some (DOMException ''InvalidAccessError'') else None))\<rparr>"

text \<open>Browsers that cannot create an answer, or refuse the local description.\<close>

definition browser_no_answer :: platform where
  "browser_no_answer =
     browser_ok\<lparr>createAnswer_result := (\<lambda>p. Inl (DOMException ''OperationError''))\<rparr>"

definition browser_no_local :: platform where
  "browser_no_local =
     browser_ok\<lparr>setLocalDescription_result :=
       (\<lambda>p d. Some (DOMException ''InvalidModificationError''))\<rparr>"

text \<open>The connected client after the relay has closed the socket.\<close>

definition s_closed :: state where
  "s_closed = ws_onclose s_open"

text \<open>A browser that rejects every remote candidate.\<close>

definition browser_no_ice :: platform where
  "browser_no_ice =
     browser_ok\<lparr>addIceCandidate_result := (\<lambda>p c. Some (DOMException ''InvalidStateError''))\<rparr>"

text \<open>The messages that carry a roster snapshot.\<close>

fun is_snapshot :: "msg \<Rightarrow> bool" where
  "is_snapshot (M_participants_update ps) = True"
| "is_snapshot (M_session_state c l ps) = True"
| "is_snapshot m = False"

section \<open>Properties\<close>

lemmas comp_defs = ret_def lift_def andthen_def emit_def run_handler_def try_catch_def

lemmas ws_defs = socket_send_def send_if_open_def send_opt_def

lemmas sync_defs = setCode_def setSuppression_def setTimeout_clear_def applyRemoteCode_def

lemmas pc_defs = new_pc_def initWebRTC_def pc_setRemoteDescription_def
  pc_setLocalDescription_def pc_createOffer_def pc_createAnswer_def pc_addIceCandidate_def
  pc_addTrack_opt_def

lemmas browser_defs = browser_ok_def browser_denied_def browser_no_ice_def browser_strict_def
  camera_tracks_def

lemmas media_defs = mediaDevices_getUserMedia_def getTracks_def getTracksOfKind_def
  track_stop_def stream_addTrack_def stop_tracks_def set_localVideo_def

subsection \<open>The concrete states\<close>

lemma s_connecting_eq:
  "s_connecting =
     \<lparr>userId = ''u2'', username = ''User 2'', sessionId = ''abc123'', editorRef = None,
      wsRef = Some CONNECTING, localVideoRef = Some None, remoteVideoRef = Some None,
      peerConnectionRef = None, localStreamRef = None, tracks = [], streams = [],
      isRemoteChangeRef = False, code = Some DEFAULT_CODE,
      language = Some ''javascript'', participants = [], isVideoOn = False,
      isAudioOn = False, isConnected = False, timers = [], outbox = [],
      trace = [NewWebSocket]\<rparr>"
  by (simp add: s_connecting_def connect_def first_commit_def initial_def emit_def)

lemma s_open_eq:
  "s_open =
     \<lparr>userId = ''u2'', username = ''User 2'', sessionId = ''abc123'', editorRef = None,
      wsRef = Some OPEN, localVideoRef = Some None, remoteVideoRef = Some None,
      peerConnectionRef = None, localStreamRef = None, tracks = [], streams = [],
      isRemoteChangeRef = False, code = Some DEFAULT_CODE,
      language = Some ''javascript'', participants = [], isVideoOn = False,
      isAudioOn = False, isConnected = True, timers = [],
      outbox = [Join ''u2'' ''User 2'' ''abc123''],
      trace = [NewWebSocket, ToastSuccess ''Connected to session'',
               WsSend (Join ''u2'' ''User 2'' ''abc123'')]\<rparr>"
  by (simp add: s_open_def s_connecting_eq ws_onopen_def comp_defs ws_defs)


lemma DEFAULT_CODE_not_x: "DEFAULT_CODE \<noteq> ''x=1''"
  by (simp add: DEFAULT_CODE_def)

subsection \<open>Loops over tracks\<close>

lemma foldl_inv:
  assumes "\<And>s x. g (f s x) = g s"
  shows "g (foldl f s xs) = g s"
  by (induction xs arbitrary: s) (simp_all add: assms)

text \<open>Stopping tracks and adding tracks to a stream touch the two stores and the trace only.\<close>

lemma track_stop_loop_frame:
  "peerConnectionRef (foldl (\<lambda>s1 i. track_stop i s1) s xs) = peerConnectionRef s"
  "outbox (foldl (\<lambda>s1 i. track_stop i s1) s xs) = outbox s"
  "wsRef (foldl (\<lambda>s1 i. track_stop i s1) s xs) = wsRef s"
  "isRemoteChangeRef (foldl (\<lambda>s1 i. track_stop i s1) s xs) = isRemoteChangeRef s"
  "participants (foldl (\<lambda>s1 i. track_stop i s1) s xs) = participants s"
  "(WsSend m \<in> set (trace (foldl (\<lambda>s1 i. track_stop i s1) s xs))) = (WsSend m \<in> set (trace s))"
  by (rule foldl_inv, simp add: track_stop_def emit_def)+

lemma stream_addTrack_loop_frame:
  "peerConnectionRef (foldl (\<lambda>s1 i. stream_addTrack sid i s1) s xs) = peerConnectionRef s"
  "outbox (foldl (\<lambda>s1 i. stream_addTrack sid i s1) s xs) = outbox s"
  "wsRef (foldl (\<lambda>s1 i. stream_addTrack sid i s1) s xs) = wsRef s"
  "isRemoteChangeRef (foldl (\<lambda>s1 i. stream_addTrack sid i s1) s xs) = isRemoteChangeRef s"
  "participants (foldl (\<lambda>s1 i. stream_addTrack sid i s1) s xs) = participants s"
  "trace (foldl (\<lambda>s1 i. stream_addTrack sid i s1) s xs) = trace s"
  by (rule foldl_inv, simp add: stream_addTrack_def)+

lemma pc_addTrack_loop_frame:
  "outbox (foldl (\<lambda>s1 t. pc_addTrack_opt t s1) s xs) = outbox s"
  "wsRef (foldl (\<lambda>s1 t. pc_addTrack_opt t s1) s xs) = wsRef s"
  "isRemoteChangeRef (foldl (\<lambda>s1 t. pc_addTrack_opt t s1) s xs) = isRemoteChangeRef s"
  "participants (foldl (\<lambda>s1 t. pc_addTrack_opt t s1) s xs) = participants s"
  "userId (foldl (\<lambda>s1 t. pc_addTrack_opt t s1) s xs) = userId s"
  "sessionId (foldl (\<lambda>s1 t. pc_addTrack_opt t s1) s xs) = sessionId s"
  by (rule foldl_inv, simp add: pc_addTrack_opt_def emit_def split: option.splits)+

lemma stop_tracks_frame:
  "peerConnectionRef (stop_tracks k s) = peerConnectionRef s"
  "outbox (stop_tracks k s) = outbox s"
  "wsRef (stop_tracks k s) = wsRef s"
  "isRemoteChangeRef (stop_tracks k s) = isRemoteChangeRef s"
  "participants (stop_tracks k s) = participants s"
  "(WsSend m \<in> set (trace (stop_tracks k s))) = (WsSend m \<in> set (trace s))"
  by (simp_all add: stop_tracks_def track_stop_loop_frame split: option.splits)

subsection \<open>Synchronisation\<close>

text \<open>
  The guarded sends of \<^verbatim>\<open>handleEditorChange\<close>, \<^verbatim>\<open>handleLanguageChange\<close> and
  \<^verbatim>\<open>onicecandidate\<close>: when the socket is not open, nothing reaches the socket and
  nothing is thrown.
\<close>

lemma send_if_open_not_open: "wsRef s \<noteq> Some OPEN \<Longrightarrow> send_if_open m s = (Inr (), s)"
  by (simp add: send_if_open_def ret_def)

lemma guarded_sends_drop_silently:
  assumes "wsRef s \<noteq> Some OPEN"
  shows "handleEditorChange v s = (if isRemoteChangeRef s then s else setCode v s)"
    and "handleLanguageChange l s = s\<lparr>language := Some l\<rparr>"
    and "onicecandidate c s = s"
  using assms
  by (simp_all add: handleEditorChange_def handleLanguageChange_def onicecandidate_def
      send_if_open_def comp_defs sync_defs split: option.splits)

text \<open>
  C7. A local edit that occurs while the suppression flag is clear and the socket is
  open sets the text to the new value and hands exactly one \<open>code_change\<close> message to
  the socket, carrying the new full text and the local userId.
\<close>

theorem local_edit_broadcast_once:
  assumes "\<not> isRemoteChangeRef s" and "wsRef s = Some OPEN"
  shows "handleEditorChange v s =
           s\<lparr>code := v,
             outbox := outbox s @ [Code_change v (userId s) (sessionId s)],
             trace := trace s @ [SetCode v, WsSend (Code_change v (userId s) (sessionId s))]\<rparr>"
  using assms by (simp add: handleEditorChange_def comp_defs ws_defs sync_defs)

theorem local_edit_broadcast_once_witness:
  "\<not> isRemoteChangeRef s_open \<and> wsRef s_open = Some OPEN \<and>
   outbox (handleEditorChange (Some ''x=1'') s_open) =
     [Join ''u2'' ''User 2'' ''abc123'', Code_change (Some ''x=1'') ''u2'' ''abc123'']"
proof -
  have a: "\<not> isRemoteChangeRef s_open" and b: "wsRef s_open = Some OPEN"
    by (simp_all add: s_open_eq)
  show ?thesis
    using local_edit_broadcast_once [OF a b, of "Some ''x=1''"] a b by (simp add: s_open_eq)
qed

subsection \<open>Roster\<close>

text \<open>
  C4. After two successive \<open>participants_update\<close> messages the roster is exactly the
  participant list of the second one (the empty list when the second one carries none),
  whatever the first one and the earlier roster were.
\<close>

theorem roster_replaced_by_last_snapshot:
  "participants (handleWebSocketMessage P (M_participants_update (Some ps2))
                   (handleWebSocketMessage P (M_participants_update ps1) s)) = ps2 \<and>
   participants (handleWebSocketMessage P (M_participants_update None)
                   (handleWebSocketMessage P (M_participants_update ps1) s)) = []"
  by simp

text \<open>The instance of the spec: the roster \<open>[A, B]\<close> followed by \<open>[B, C]\<close> leaves \<open>[B, C]\<close>.\<close>

lemma roster_AB_then_BC:
  "participants
     (handleWebSocketMessage P
        (M_participants_update (Some [\<lparr>p_userId = ''B'', p_username = ''Bob''\<rparr>,
                                      \<lparr>p_userId = ''C'', p_username = ''Cy''\<rparr>]))
        (handleWebSocketMessage P
           (M_participants_update (Some [\<lparr>p_userId = ''A'', p_username = ''Ann''\<rparr>,
                                         \<lparr>p_userId = ''B'', p_username = ''Bob''\<rparr>])) s)) =
   [\<lparr>p_userId = ''B'', p_username = ''Bob''\<rparr>, \<lparr>p_userId = ''C'', p_username = ''Cy''\<rparr>]"
  by simp

text \<open>Every step of the negotiation handlers leaves the roster alone.\<close>

lemma participants_handleOffer: "participants (run_handler (handleOffer P d) s) = participants s"
  by (simp add: handleOffer_def comp_defs ws_defs pc_defs
      split: option.splits sum.splits readyState.splits)

lemma participants_handleAnswer: "participants (run_handler (handleAnswer P d) s) = participants s"
  by (simp add: handleAnswer_def comp_defs pc_defs split: option.splits)

lemma participants_handleIceCandidate:
  "participants (run_handler (handleIceCandidate P c) s) = participants s"
  by (simp add: handleIceCandidate_def comp_defs pc_defs split: option.splits)

text \<open>
  C9. \<open>user_joined\<close> and \<open>user_left\<close> add one info toast and change nothing else, so
  the roster stays; and no message other than the two snapshot messages changes the
  roster.
\<close>

theorem roster_changed_only_by_snapshots:
  "handleWebSocketMessage P (M_user_joined u) s =
     s\<lparr>trace := trace s @ [ToastInfo (or_else u ''Someone'' @ '' joined'')]\<rparr> \<and>
   handleWebSocketMessage P (M_user_left u) s =
     s\<lparr>trace := trace s @ [ToastInfo (or_else u ''Someone'' @ '' left'')]\<rparr> \<and>
   (\<not> is_snapshot m \<longrightarrow>
      participants (handleWebSocketMessage P m s) = participants s)"
proof (intro conjI impI)
  show "handleWebSocketMessage P (M_user_joined u) s =
          s\<lparr>trace := trace s @ [ToastInfo (or_else u ''Someone'' @ '' joined'')]\<rparr>"
    by (simp add: emit_def)
  show "handleWebSocketMessage P (M_user_left u) s =
          s\<lparr>trace := trace s @ [ToastInfo (or_else u ''Someone'' @ '' left'')]\<rparr>"
    by (simp add: emit_def)
  assume "\<not> is_snapshot m"
  then show "participants (handleWebSocketMessage P m s) = participants s"
    by (cases m)
       (simp_all add: participants_handleOffer participants_handleAnswer
          participants_handleIceCandidate emit_def sync_defs)
qed

theorem roster_changed_only_by_snapshots_witness:
  "\<not> is_snapshot (M_user_left (Some ''Ann'')) \<and>
   participants (handleWebSocketMessage browser_ok (M_user_left (Some ''Ann''))
      (handleWebSocketMessage browser_ok
         (M_participants_update (Some [\<lparr>p_userId = ''A'', p_username = ''Ann''\<rparr>])) s_open)) =
     [\<lparr>p_userId = ''A'', p_username = ''Ann''\<rparr>] \<and>
   trace (handleWebSocketMessage browser_ok (M_user_joined None) s_open) =
     trace s_open @ [ToastInfo ''Someone joined'']"
proof -
  have a: "\<not> is_snapshot (M_user_left (Some ''Ann''))" by simp
  note t = roster_changed_only_by_snapshots [of browser_ok _ _ "M_user_left (Some ''Ann'')"]
  from t a have b: "participants (handleWebSocketMessage browser_ok (M_user_left (Some ''Ann''))
      (handleWebSocketMessage browser_ok
         (M_participants_update (Some [\<lparr>p_userId = ''A'', p_username = ''Ann''\<rparr>])) s_open)) =
     participants (handleWebSocketMessage browser_ok
         (M_participants_update (Some [\<lparr>p_userId = ''A'', p_username = ''Ann''\<rparr>])) s_open)"
    by blast
  from t [of None s_open] have c: "handleWebSocketMessage browser_ok (M_user_joined None) s_open =
      s_open\<lparr>trace := trace s_open @ [ToastInfo (or_else None ''Someone'' @ '' joined'')]\<rparr>"
    by blast
  have d: "trace (handleWebSocketMessage browser_ok (M_user_joined None) s_open) =
     trace s_open @ [ToastInfo ''Someone joined'']"
    by (subst c) (simp add: or_else_def)
  from a b d show ?thesis by simp
qed

subsection \<open>Media\<close>

text \<open>
  C5. When the video is off and the browser refuses the capture device, \<^verbatim>\<open>toggleVideo\<close>
  changes nothing but the trace: the request, the error toast and the console entry.
  The video stays off and the peer connection reference is what it was, so none has
  been created.
\<close>

theorem video_enable_failure_leaves_state:
  assumes "\<not> isVideoOn s"
    and "getUserMedia_result P \<lparr>c_video = True, c_audio = isAudioOn s\<rparr> = Inl e"
  shows "toggleVideo P s =
           s\<lparr>trace := trace s @ [GetUserMedia \<lparr>c_video = True, c_audio = isAudioOn s\<rparr>,
                                  ToastError ''Failed to access camera'', ConsoleError e]\<rparr> \<and>
         \<not> isVideoOn (toggleVideo P s) \<and>
         peerConnectionRef (toggleVideo P s) = peerConnectionRef s \<and>
         localStreamRef (toggleVideo P s) = localStreamRef s \<and>
         outbox (toggleVideo P s) = outbox s"
  using assms by (simp add: toggleVideo_def mediaDevices_getUserMedia_def comp_defs)

theorem video_enable_failure_leaves_state_witness:
  "\<not> isVideoOn s_open \<and>
   getUserMedia_result browser_denied \<lparr>c_video = True, c_audio = isAudioOn s_open\<rparr> =
     Inl (DOMException ''NotAllowedError'') \<and>
   \<not> isVideoOn (toggleVideo browser_denied s_open) \<and>
   peerConnectionRef (toggleVideo browser_denied s_open) = None"
proof -
  have a: "\<not> isVideoOn s_open" by (simp add: s_open_eq)
  have b: "getUserMedia_result browser_denied \<lparr>c_video = True, c_audio = isAudioOn s_open\<rparr> =
     Inl (DOMException ''NotAllowedError'')"
    by (simp add: browser_defs)
  have c: "peerConnectionRef s_open = None" by (simp add: s_open_eq)
  from video_enable_failure_leaves_state [OF a b] a b c show ?thesis by simp
qed

text \<open>\<^verbatim>\<open>toggleAudio\<close> never touches the peer connection or the socket.\<close>

lemma toggleAudio_no_negotiation:
  "peerConnectionRef (toggleAudio P s) = peerConnectionRef s \<and>
   outbox (toggleAudio P s) = outbox s \<and>
   WsSend m \<notin> set (trace (toggleAudio P s)) - set (trace s)"
  by (simp add: toggleAudio_def mediaDevices_getUserMedia_def comp_defs stop_tracks_frame
      stream_addTrack_loop_frame split: option.splits sum.splits)

text \<open>
  \<^verbatim>\<open>toggleVideo\<close> on the connected client: a peer connection is created, the local
  offer is created and set as local description, and the \<open>webrtc_offer\<close> is sent.
\<close>

lemma toggleVideo_negotiates:
  "peerConnectionRef (toggleVideo browser_ok s_open) =
     Some (new_pc\<lparr>localDescription := Some (Sdp ''local-offer''), senders := [0]\<rparr>) \<and>
   localStreamRef (toggleVideo browser_ok s_open) = Some 0 \<and>
   localVideoRef (toggleVideo browser_ok s_open) = Some (Some 0) \<and>
   outbox (toggleVideo browser_ok s_open) =
     outbox s_open @ [Webrtc_offer (Sdp ''local-offer'') ''u2'' ''abc123''] \<and>
   trace (toggleVideo browser_ok s_open) =
     trace s_open @
     [GetUserMedia \<lparr>c_video = True, c_audio = False\<rparr>, NewRTCPeerConnection, AddTrack 0,
      CreateOffer, SetLocalDescription (Sdp ''local-offer''),
      WsSend (Webrtc_offer (Sdp ''local-offer'') ''u2'' ''abc123'')]"
  by (simp add: s_open_eq toggleVideo_def media_defs comp_defs ws_defs pc_defs browser_defs)

text \<open>
  C8, at the input where the code departs from it. Enabling audio on the connected
  client, with no negotiation yet and a browser that grants the microphone, turns audio
  on and stores the stream, but creates no peer connection, creates no offer and sends
  nothing.
\<close>

theorem audio_enable_starts_no_negotiation:
  "peerConnectionRef s_open = None \<and>
   isAudioOn (toggleAudio browser_ok s_open) \<and>
   localStreamRef (toggleAudio browser_ok s_open) = Some 0 \<and>
   streams (toggleAudio browser_ok s_open) = [[0]] \<and>
   tracks (toggleAudio browser_ok s_open) = [\<lparr>t_kind = AudioKind, t_stopped = False\<rparr>] \<and>
   peerConnectionRef (toggleAudio browser_ok s_open) = None \<and>
   outbox (toggleAudio browser_ok s_open) = outbox s_open \<and>
   trace (toggleAudio browser_ok s_open) =
     trace s_open @ [GetUserMedia \<lparr>c_video = False, c_audio = True\<rparr>]"
  by (simp add: s_open_eq toggleAudio_def media_defs comp_defs browser_defs)

subsection \<open>The relay socket\<close>

text \<open>
  C3, at the input where the code departs from it. The video is enabled while the
  socket is still connecting, on a browser where every media and peer-connection call
  resolves: the unguarded \<^verbatim>\<open>send\<close> of the \<open>webrtc_offer\<close> throws, the exception is
  caught and reported as a camera failure, and the video stays marked as on.
\<close>

theorem offer_send_while_connecting_raises:
  "wsRef s_connecting = Some CONNECTING \<and>
   trace (toggleVideo browser_ok s_connecting) =
     trace s_connecting @
     [GetUserMedia \<lparr>c_video = True, c_audio = False\<rparr>, NewRTCPeerConnection, AddTrack 0,
      CreateOffer, SetLocalDescription (Sdp ''local-offer''),
      WsSend (Webrtc_offer (Sdp ''local-offer'') ''u2'' ''abc123''),
      ToastError ''Failed to access camera'',
      ConsoleError (DOMException ''InvalidStateError'')] \<and>
   isVideoOn (toggleVideo browser_ok s_connecting) \<and>
   outbox (toggleVideo browser_ok s_connecting) = []"
  by (simp add: s_connecting_eq toggleVideo_def media_defs comp_defs ws_defs pc_defs browser_defs)

subsection \<open>Negotiation\<close>

text \<open>The peer connection of the client that received a candidate, then the offer.\<close>

lemma s_early_ice_then_offer_pc:
  "peerConnectionRef s_early_ice_then_offer =
     Some (new_pc\<lparr>remoteDescription := Some (Sdp ''remote-offer''),
                  localDescription := Some (Sdp ''local-answer'')\<rparr>)"
  by (simp add: s_early_ice_then_offer_def s_early_ice_def s_open_eq handleIceCandidate_def
      handleOffer_def comp_defs ws_defs pc_defs browser_defs)

text \<open>
  C2, as amended. Nothing is buffered. A \<open>webrtc_ice\<close> message with a candidate that
  arrives while no peer connection exists leaves the whole state as it was, so the
  candidate is lost. When a peer connection exists the candidate is handed to
  \<^verbatim>\<open>addIceCandidate\<close> at once, whether or not a remote description has been set: it
  joins the connection's candidates if the browser accepts it, and is lost with an
  uncaught rejection if the browser refuses it.
\<close>

theorem ice_candidate_applied_on_receipt_or_lost:
  "(peerConnectionRef s = None \<longrightarrow>
      handleWebSocketMessage P (M_webrtc_ice (Some c)) s = s) \<and>
   (peerConnectionRef s = Some p \<and> addIceCandidate_result P p c = None \<longrightarrow>
      handleWebSocketMessage P (M_webrtc_ice (Some c)) s =
        s\<lparr>peerConnectionRef := Some (p\<lparr>remoteCandidates := remoteCandidates p @ [c]\<rparr>),
          trace := trace s @ [AddIceCandidate c]\<rparr>) \<and>
   (peerConnectionRef s = Some p \<and> addIceCandidate_result P p c = Some e \<longrightarrow>
      handleWebSocketMessage P (M_webrtc_ice (Some c)) s =
        s\<lparr>trace := trace s @ [AddIceCandidate c, Uncaught e]\<rparr>)"
  by (simp add: handleIceCandidate_def comp_defs pc_defs)

theorem ice_candidate_applied_on_receipt_or_lost_witness:
  "peerConnectionRef s_open = None \<and>
   handleWebSocketMessage browser_ok (M_webrtc_ice (Some (Candidate ''c1''))) s_open = s_open \<and>
   map_option remoteCandidates
     (peerConnectionRef
        (handleWebSocketMessage browser_ok (M_webrtc_ice (Some (Candidate ''c2'')))
           s_early_ice_then_offer)) = Some [Candidate ''c2''] \<and>
   trace (handleWebSocketMessage browser_no_ice (M_webrtc_ice (Some (Candidate ''c2'')))
            s_early_ice_then_offer) =
     trace s_early_ice_then_offer @
     [AddIceCandidate (Candidate ''c2''), Uncaught (DOMException ''InvalidStateError'')]"
proof -
  let ?q = "new_pc\<lparr>remoteDescription := Some (Sdp ''remote-offer''),
                   localDescription := Some (Sdp ''local-answer'')\<rparr>"
  have a: "peerConnectionRef s_open = None" by (simp add: s_open_eq)
  have b: "peerConnectionRef s_early_ice_then_offer = Some ?q" by (rule s_early_ice_then_offer_pc)
  have c: "addIceCandidate_result browser_ok ?q (Candidate ''c2'') = None"
    by (simp add: browser_defs)
  have d: "addIceCandidate_result browser_no_ice ?q (Candidate ''c2'') =
      Some (DOMException ''InvalidStateError'')"
    by (simp add: browser_defs)
  from ice_candidate_applied_on_receipt_or_lost [of s_open browser_ok "Candidate ''c1''"] a
  have e: "handleWebSocketMessage browser_ok (M_webrtc_ice (Some (Candidate ''c1''))) s_open = s_open"
    by blast
  from ice_candidate_applied_on_receipt_or_lost
         [of s_early_ice_then_offer browser_ok "Candidate ''c2''" ?q] b c
  have f: "handleWebSocketMessage browser_ok (M_webrtc_ice (Some (Candidate ''c2'')))
             s_early_ice_then_offer =
           s_early_ice_then_offer
             \<lparr>peerConnectionRef := Some (?q\<lparr>remoteCandidates := remoteCandidates ?q @ [Candidate ''c2'']\<rparr>),
              trace := trace s_early_ice_then_offer @ [AddIceCandidate (Candidate ''c2'')]\<rparr>"
    by blast
  from ice_candidate_applied_on_receipt_or_lost
         [of s_early_ice_then_offer browser_no_ice "Candidate ''c2''" ?q
             "DOMException ''InvalidStateError''"] b d
  have g: "handleWebSocketMessage browser_no_ice (M_webrtc_ice (Some (Candidate ''c2'')))
             s_early_ice_then_offer =
           s_early_ice_then_offer
             \<lparr>trace := trace s_early_ice_then_offer @
                 [AddIceCandidate (Candidate ''c2''), Uncaught (DOMException ''InvalidStateError'')]\<rparr>"
    by blast
  have h: "map_option remoteCandidates
     (peerConnectionRef
        (handleWebSocketMessage browser_ok (M_webrtc_ice (Some (Candidate ''c2'')))
           s_early_ice_then_offer)) = Some [Candidate ''c2'']"
    by (subst f) (simp add: new_pc_def)
  have i: "trace (handleWebSocketMessage browser_no_ice (M_webrtc_ice (Some (Candidate ''c2'')))
            s_early_ice_then_offer) =
     trace s_early_ice_then_offer @
     [AddIceCandidate (Candidate ''c2''), Uncaught (DOMException ''InvalidStateError'')]"
    by (subst g) simp
  from a e h i show ?thesis by blast
qed

text \<open>
  C2 as stated fails. The candidate \<open>c1\<close> reaches the connected client before any peer
  connection exists, so before a remote description is set: the state does not change.
  The peer's offer follows and sets the remote description; the candidate is not among
  the connection's candidates and \<^verbatim>\<open>addIceCandidate\<close> was never called with it.
\<close>

theorem early_ice_candidate_dropped_counterexample:
  "peerConnectionRef s_open = None \<and>
   s_early_ice = s_open \<and>
   map_option remoteDescription (peerConnectionRef s_early_ice_then_offer) =
     Some (Some (Sdp ''remote-offer'')) \<and>
   map_option remoteCandidates (peerConnectionRef s_early_ice_then_offer) = Some [] \<and>
   AddIceCandidate (Candidate ''c1'') \<notin> set (trace s_early_ice_then_offer)"
  by (simp add: s_early_ice_then_offer_def s_early_ice_def s_open_eq handleIceCandidate_def
      handleOffer_def comp_defs ws_defs pc_defs browser_defs)

subsection \<open>What no handler but the timer callback does\<close>































subsection \<open>Echo suppression\<close>




text \<open>
  C10, as amended. A \<open>code_change\<close> that arrives while the editor handle is absent
  leaves the whole state as it was: no text update, no suppression flag, no timer,
  nothing sent. Once \<^verbatim>\<open>handleEditorMount\<close> has stored the handle, the same message
  from another user replaces the text. A \<open>session_state\<close> with a non-empty code is
  not held back by the editor handle: in every state it sets the flag and replaces the
  text, and sends nothing.
\<close>

theorem code_change_before_mount_ignored:
  "(editorRef s = None \<longrightarrow> handleWebSocketMessage P (M_code_change c uid) s = s) \<and>
   (uid \<noteq> Some (userId s) \<longrightarrow>
      code (handleWebSocketMessage P (M_code_change c uid) (handleEditorMount ed s)) = c) \<and>
   (truthy_str c \<longrightarrow>
      code (handleWebSocketMessage P (M_session_state c l ps) s) = c \<and>
      isRemoteChangeRef (handleWebSocketMessage P (M_session_state c l ps) s) \<and>
      outbox (handleWebSocketMessage P (M_session_state c l ps) s) = outbox s)"
  by (cases ps) (simp_all add: handleEditorMount_def comp_defs sync_defs Let_def)

theorem code_change_before_mount_ignored_witness:
  "editorRef s_open = None \<and> Some ''u1'' \<noteq> Some (userId s_open) \<and> truthy_str (Some ''x=1'') \<and>
   handleWebSocketMessage browser_ok (M_code_change (Some ''x=1'') (Some ''u1'')) s_open = s_open \<and>
   code (handleWebSocketMessage browser_ok (M_code_change (Some ''x=1'') (Some ''u1''))
           (handleEditorMount 0 s_open)) = Some ''x=1'' \<and>
   code (handleWebSocketMessage browser_ok (M_session_state (Some ''x=1'') None None) s_open) =
     Some ''x=1''"
proof -
  have a: "editorRef s_open = None" and b: "Some ''u1'' \<noteq> Some (userId s_open)"
    and c: "truthy_str (Some ''x=1'')"
    by (simp_all add: s_open_eq)
  note t = code_change_before_mount_ignored
    [of s_open browser_ok "Some ''x=1''" "Some ''u1''" 0 None None]
  from t a have d: "handleWebSocketMessage browser_ok
      (M_code_change (Some ''x=1'') (Some ''u1'')) s_open = s_open"
    by blast
  from t b have e: "code (handleWebSocketMessage browser_ok
      (M_code_change (Some ''x=1'') (Some ''u1'')) (handleEditorMount 0 s_open)) = Some ''x=1''"
    by blast
  from t c have f: "code (handleWebSocketMessage browser_ok
      (M_session_state (Some ''x=1'') None None) s_open) = Some ''x=1''"
    by blast
  from a b c d e f show ?thesis by blast
qed

text \<open>
  C10 as stated fails in its last clause: a remote text update takes effect before the
  editor handle exists when it comes in a \<open>session_state\<close>.
\<close>

theorem session_state_before_mount_counterexample:
  "editorRef s_open = None \<and>
   code (handleWebSocketMessage browser_ok (M_session_state (Some ''x=1'') None None) s_open) =
     Some ''x=1'' \<and>
   code s_open \<noteq> Some ''x=1'' \<and>
   isRemoteChangeRef
     (handleWebSocketMessage browser_ok (M_session_state (Some ''x=1'') None None) s_open)"
  by (simp add: s_open_eq DEFAULT_CODE_not_x comp_defs sync_defs)

subsection \<open>Answering an offer\<close>

lemma s_closed_eq:
  "s_closed = s_open\<lparr>wsRef := Some CLOSED, isConnected := False,
     trace := trace s_open @ [ToastError ''Disconnected from session'']\<rparr>"
  by (simp add: s_closed_def ws_onclose_def emit_def)

text \<open>
  C6, as amended. For an inbound \<open>webrtc_offer\<close> the handler, after creating the peer
  connection if there is none, sets the offer as remote description, creates an answer,
  sets the answer as local description and calls \<^verbatim>\<open>send\<close> with a \<open>webrtc_answer\<close>
  carrying that answer and the local userId, in this order. It stops at the first of the
  three peer-connection calls that the browser rejects, with an uncaught rejection and
  none of the later steps. When the three resolve, the answer is transmitted if the
  socket is open, and discarded by the socket if it is closing or closed.
\<close>

theorem offer_answered_in_order:
  assumes "p = (case peerConnectionRef s of None \<Rightarrow> new_pc | Some q \<Rightarrow> q)"
    and "pre = (if peerConnectionRef s = None then [NewRTCPeerConnection] else [])"
  shows
    "(setRemoteDescription_result P p offer = Some e \<longrightarrow>
        handleWebSocketMessage P (M_webrtc_offer offer) s =
          s\<lparr>peerConnectionRef := Some p,
            trace := trace s @ pre @ [SetRemoteDescription offer, Uncaught e]\<rparr>) \<and>
     (setRemoteDescription_result P p offer = None \<and>
      createAnswer_result P (p\<lparr>remoteDescription := offer\<rparr>) = Inl e \<longrightarrow>
        handleWebSocketMessage P (M_webrtc_offer offer) s =
          s\<lparr>peerConnectionRef := Some (p\<lparr>remoteDescription := offer\<rparr>),
            trace := trace s @ pre @ [SetRemoteDescription offer, CreateAnswer, Uncaught e]\<rparr>) \<and>
     (setRemoteDescription_result P p offer = None \<and>
      createAnswer_result P (p\<lparr>remoteDescription := offer\<rparr>) = Inr answer \<and>
      setLocalDescription_result P (p\<lparr>remoteDescription := offer\<rparr>) answer = Some e \<longrightarrow>
        handleWebSocketMessage P (M_webrtc_offer offer) s =
          s\<lparr>peerConnectionRef := Some (p\<lparr>remoteDescription := offer\<rparr>),
            trace := trace s @ pre @
              [SetRemoteDescription offer, CreateAnswer, SetLocalDescription answer,
               Uncaught e]\<rparr>) \<and>
     (setRemoteDescription_result P p offer = None \<and>
      createAnswer_result P (p\<lparr>remoteDescription := offer\<rparr>) = Inr answer \<and>
      setLocalDescription_result P (p\<lparr>remoteDescription := offer\<rparr>) answer = None \<and>
      wsRef s = Some OPEN \<longrightarrow>
        handleWebSocketMessage P (M_webrtc_offer offer) s =
          s\<lparr>peerConnectionRef :=
               Some (p\<lparr>remoteDescription := offer, localDescription := Some answer\<rparr>),
            outbox := outbox s @ [Webrtc_answer answer (userId s) (sessionId s)],
            trace := trace s @ pre @
              [SetRemoteDescription offer, CreateAnswer, SetLocalDescription answer,
               WsSend (Webrtc_answer answer (userId s) (sessionId s))]\<rparr>) \<and>
     (setRemoteDescription_result P p offer = None \<and>
      createAnswer_result P (p\<lparr>remoteDescription := offer\<rparr>) = Inr answer \<and>
      setLocalDescription_result P (p\<lparr>remoteDescription := offer\<rparr>) answer = None \<and>
      (wsRef s = Some CLOSING \<or> wsRef s = Some CLOSED) \<longrightarrow>
        handleWebSocketMessage P (M_webrtc_offer offer) s =
          s\<lparr>peerConnectionRef :=
               Some (p\<lparr>remoteDescription := offer, localDescription := Some answer\<rparr>),
            trace := trace s @ pre @
              [SetRemoteDescription offer, CreateAnswer, SetLocalDescription answer,
               WsSend (Webrtc_answer answer (userId s) (sessionId s))]\<rparr>)"
  using assms
  by (cases "peerConnectionRef s")
     (auto simp add: handleOffer_def comp_defs ws_defs pc_defs)

theorem offer_answered_in_order_witness:
  "setRemoteDescription_result browser_strict new_pc None = Some TypeError \<and>
   createAnswer_result browser_no_answer (new_pc\<lparr>remoteDescription := Some (Sdp ''remote-offer'')\<rparr>) =
     Inl (DOMException ''OperationError'') \<and>
   setLocalDescription_result browser_no_local
     (new_pc\<lparr>remoteDescription := Some (Sdp ''remote-offer'')\<rparr>) (Sdp ''local-answer'') =
     Some (DOMException ''InvalidModificationError'') \<and>
   wsRef s_open = Some OPEN \<and> wsRef s_closed = Some CLOSED \<and>
   trace (handleWebSocketMessage browser_strict (M_webrtc_offer None) s_open) =
     trace s_open @ [NewRTCPeerConnection, SetRemoteDescription None, Uncaught TypeError] \<and>
   trace (handleWebSocketMessage browser_no_answer
            (M_webrtc_offer (Some (Sdp ''remote-offer''))) s_open) =
     trace s_open @
     [NewRTCPeerConnection, SetRemoteDescription (Some (Sdp ''remote-offer'')), CreateAnswer,
      Uncaught (DOMException ''OperationError'')] \<and>
   trace (handleWebSocketMessage browser_no_local
            (M_webrtc_offer (Some (Sdp ''remote-offer''))) s_open) =
     trace s_open @
     [NewRTCPeerConnection, SetRemoteDescription (Some (Sdp ''remote-offer'')), CreateAnswer,
      SetLocalDescription (Sdp ''local-answer''),
      Uncaught (DOMException ''InvalidModificationError'')] \<and>
   trace (handleWebSocketMessage browser_ok (M_webrtc_offer (Some (Sdp ''remote-offer''))) s_open) =
     trace s_open @
     [NewRTCPeerConnection, SetRemoteDescription (Some (Sdp ''remote-offer'')), CreateAnswer,
      SetLocalDescription (Sdp ''local-answer''),
      WsSend (Webrtc_answer (Sdp ''local-answer'') ''u2'' ''abc123'')] \<and>
   outbox (handleWebSocketMessage browser_ok (M_webrtc_offer (Some (Sdp ''remote-offer''))) s_open) =
     [Join ''u2'' ''User 2'' ''abc123'', Webrtc_answer (Sdp ''local-answer'') ''u2'' ''abc123''] \<and>
   outbox (handleWebSocketMessage browser_ok (M_webrtc_offer (Some (Sdp ''remote-offer''))) s_closed) =
     [Join ''u2'' ''User 2'' ''abc123'']"
proof -
  let ?o = "Some (Sdp ''remote-offer'')"
  let ?q = "new_pc\<lparr>remoteDescription := ?o\<rparr>"
  have p1: "new_pc = (case peerConnectionRef s_open of None \<Rightarrow> new_pc | Some q \<Rightarrow> q)"
    and p2: "new_pc = (case peerConnectionRef s_closed of None \<Rightarrow> new_pc | Some q \<Rightarrow> q)"
    and q1: "[NewRTCPeerConnection] =
       (if peerConnectionRef s_open = None then [NewRTCPeerConnection] else [])"
    and q2: "[NewRTCPeerConnection] =
       (if peerConnectionRef s_closed = None then [NewRTCPeerConnection] else [])"
    by (simp_all add: s_closed_eq s_open_eq)
  have f: "userId s_open = ''u2''" "sessionId s_open = ''abc123''"
    "outbox s_open = [Join ''u2'' ''User 2'' ''abc123'']"
    "outbox s_closed = [Join ''u2'' ''User 2'' ''abc123'']"
    by (simp_all add: s_closed_eq s_open_eq)
  have w1: "wsRef s_open = Some OPEN" and w2: "wsRef s_closed = Some CLOSED"
    by (simp_all add: s_closed_eq s_open_eq)
  have h1: "setRemoteDescription_result browser_strict new_pc None = Some TypeError"
    by (simp add: browser_defs)
  have h2: "setRemoteDescription_result browser_no_answer new_pc ?o = None"
    "createAnswer_result browser_no_answer ?q = Inl (DOMException ''OperationError'')"
    by (simp_all add: browser_no_answer_def browser_defs)
  have h3: "setRemoteDescription_result browser_no_local new_pc ?o = None"
    "createAnswer_result browser_no_local ?q = Inr (Sdp ''local-answer'')"
    "setLocalDescription_result browser_no_local ?q (Sdp ''local-answer'') =
       Some (DOMException ''InvalidModificationError'')"
    by (simp_all add: browser_no_local_def browser_defs)
  have h4: "setRemoteDescription_result browser_ok new_pc ?o = None"
    "createAnswer_result browser_ok ?q = Inr (Sdp ''local-answer'')"
    "setLocalDescription_result browser_ok ?q (Sdp ''local-answer'') = None"
    by (simp_all add: browser_defs)
  from offer_answered_in_order [OF p1 q1, where P = browser_strict and offer = None
      and e = TypeError] h1
  have c1: "handleWebSocketMessage browser_strict (M_webrtc_offer None) s_open =
      s_open\<lparr>peerConnectionRef := Some new_pc,
        trace := trace s_open @ [NewRTCPeerConnection] @
          [SetRemoteDescription None, Uncaught TypeError]\<rparr>"
    by blast
  from offer_answered_in_order [OF p1 q1, where P = browser_no_answer and offer = ?o
      and e = "DOMException ''OperationError''"] h2
  have c2: "handleWebSocketMessage browser_no_answer (M_webrtc_offer ?o) s_open =
      s_open\<lparr>peerConnectionRef := Some ?q,
        trace := trace s_open @ [NewRTCPeerConnection] @
          [SetRemoteDescription ?o, CreateAnswer, Uncaught (DOMException ''OperationError'')]\<rparr>"
    by blast
  from offer_answered_in_order [OF p1 q1, where P = browser_no_local and offer = ?o
      and e = "DOMException ''InvalidModificationError''" and answer = "Sdp ''local-answer''"] h3
  have c3: "handleWebSocketMessage browser_no_local (M_webrtc_offer ?o) s_open =
      s_open\<lparr>peerConnectionRef := Some ?q,
        trace := trace s_open @ [NewRTCPeerConnection] @
          [SetRemoteDescription ?o, CreateAnswer, SetLocalDescription (Sdp ''local-answer''),
           Uncaught (DOMException ''InvalidModificationError'')]\<rparr>"
    by blast
  from offer_answered_in_order [OF p1 q1, where P = browser_ok and offer = ?o
      and answer = "Sdp ''local-answer''"] h4 w1
  have c4: "handleWebSocketMessage browser_ok (M_webrtc_offer ?o) s_open =
      s_open\<lparr>peerConnectionRef :=
           Some (new_pc\<lparr>remoteDescription := ?o, localDescription := Some (Sdp ''local-answer'')\<rparr>),
        outbox := outbox s_open @
          [Webrtc_answer (Sdp ''local-answer'') (userId s_open) (sessionId s_open)],
        trace := trace s_open @ [NewRTCPeerConnection] @
          [SetRemoteDescription ?o, CreateAnswer, SetLocalDescription (Sdp ''local-answer''),
           WsSend (Webrtc_answer (Sdp ''local-answer'') (userId s_open) (sessionId s_open))]\<rparr>"
    by blast
  from offer_answered_in_order [OF p2 q2, where P = browser_ok and offer = ?o
      and answer = "Sdp ''local-answer''"] h4 w2
  have c5: "handleWebSocketMessage browser_ok (M_webrtc_offer ?o) s_closed =
      s_closed\<lparr>peerConnectionRef :=
           Some (new_pc\<lparr>remoteDescription := ?o, localDescription := Some (Sdp ''local-answer'')\<rparr>),
        trace := trace s_closed @ [NewRTCPeerConnection] @
          [SetRemoteDescription ?o, CreateAnswer, SetLocalDescription (Sdp ''local-answer''),
           WsSend (Webrtc_answer (Sdp ''local-answer'') (userId s_closed) (sessionId s_closed))]\<rparr>"
    by blast
  have d1: "trace (handleWebSocketMessage browser_strict (M_webrtc_offer None) s_open) =
     trace s_open @ [NewRTCPeerConnection, SetRemoteDescription None, Uncaught TypeError]"
    by (subst c1) simp
  have d2: "trace (handleWebSocketMessage browser_no_answer (M_webrtc_offer ?o) s_open) =
     trace s_open @
     [NewRTCPeerConnection, SetRemoteDescription ?o, CreateAnswer,
      Uncaught (DOMException ''OperationError'')]"
    by (subst c2) simp
  have d3: "trace (handleWebSocketMessage browser_no_local (M_webrtc_offer ?o) s_open) =
     trace s_open @
     [NewRTCPeerConnection, SetRemoteDescription ?o, CreateAnswer,
      SetLocalDescription (Sdp ''local-answer''),
      Uncaught (DOMException ''InvalidModificationError'')]"
    by (subst c3) simp
  have d4: "trace (handleWebSocketMessage browser_ok (M_webrtc_offer ?o) s_open) =
     trace s_open @
     [NewRTCPeerConnection, SetRemoteDescription ?o, CreateAnswer,
      SetLocalDescription (Sdp ''local-answer''),
      WsSend (Webrtc_answer (Sdp ''local-answer'') ''u2'' ''abc123'')]"
    by (subst c4) (simp add: f)
  have d5: "outbox (handleWebSocketMessage browser_ok (M_webrtc_offer ?o) s_open) =
     [Join ''u2'' ''User 2'' ''abc123'', Webrtc_answer (Sdp ''local-answer'') ''u2'' ''abc123'']"
    by (subst c4) (simp add: f)
  have d6: "outbox (handleWebSocketMessage browser_ok (M_webrtc_offer ?o) s_closed) =
     [Join ''u2'' ''User 2'' ''abc123'']"
    by (subst c5) (simp add: f)
  from h1 h2(2) h3(3) w1 w2 d1 d2 d3 d4 d5 d6 show ?thesis by blast
qed

text \<open>
  C6 as stated fails. The offer of a peer arrives without a session description, on a
  browser that rejects such a description: the handler stops at the first step, creates
  no answer and sends none.
\<close>

theorem offer_not_answered_counterexample:
  "trace (handleWebSocketMessage browser_strict (M_webrtc_offer None) s_open) =
     trace s_open @ [NewRTCPeerConnection, SetRemoteDescription None, Uncaught TypeError] \<and>
   CreateAnswer \<notin> set (trace (handleWebSocketMessage browser_strict (M_webrtc_offer None) s_open)) \<and>
   outbox (handleWebSocketMessage browser_strict (M_webrtc_offer None) s_open) = outbox s_open \<and>
   map_option localDescription
     (peerConnectionRef (handleWebSocketMessage browser_strict (M_webrtc_offer None) s_open)) =
     Some None"
  by (simp add: s_open_eq handleOffer_def comp_defs ws_defs pc_defs browser_defs)

end
